theory Spec2Isabelle
  imports Main
begin

section \<open>Strings\<close>

text \<open>
  Python strings are modelled as \<open>string\<close> (lists of 8-bit characters). The strings the
  program inspects (OS name, CPU architecture, package names) are compared against ASCII
  literals only, so \<open>str.lower()\<close> is modelled by the map on \<open>A\<close>..\<open>Z\<close>; every
  other character is left as it is.
\<close>

definition lower_char :: "char \<Rightarrow> char" where
  "lower_char c =
     (let n = (of_char c :: nat) in if 65 \<le> n \<and> n \<le> 90 then char_of (n + 32) else c)"

definition str_lower :: "string \<Rightarrow> string" where
  "str_lower s = map lower_char s"

text \<open>\<open>hay.startswith(needle)\<close>.\<close>

fun startswith :: "string \<Rightarrow> string \<Rightarrow> bool" where
  "startswith hay [] = True"
| "startswith [] (c # cs) = False"
| "startswith (h # hs) (c # cs) = (h = c \<and> startswith hs cs)"

text \<open>The substring test \<open>needle in hay\<close>.\<close>

fun str_in :: "string \<Rightarrow> string \<Rightarrow> bool" where
  "str_in needle [] = (needle = [])"
| "str_in needle (h # hs) = (startswith (h # hs) needle \<or> str_in needle hs)"

text \<open>\<open>sep.join(parts)\<close>.\<close>

fun str_join :: "string \<Rightarrow> string list \<Rightarrow> string" where
  "str_join sep [] = []"
| "str_join sep [p] = p"
| "str_join sep (p # q # ps) = p @ sep @ str_join sep (q # ps)"

text \<open>\<open>str(n)\<close> for an integer: decimal digits, with a leading minus sign.\<close>

fun str_nat :: "nat \<Rightarrow> string" where
  "str_nat n =
     (if n < 10 then [char_of (48 + n)] else str_nat (n div 10) @ [char_of (48 + n mod 10)])"

declare str_nat.simps [simp del]

definition str_int :: "int \<Rightarrow> string" where
  "str_int i = (if i < 0 then CHR ''-'' # str_nat (nat (- i)) else str_nat (nat i))"

section \<open>Errors\<close>

text \<open>The exceptions the program raises or lets through, each with its message.\<close>

datatype error =
    RuntimeError string
  | FileNotFoundError string
  | URLError string
  | OSError string

section \<open>Package lists\<close>

definition BASE_LIBRARIES :: "string list" where
  "BASE_LIBRARIES =
     [''requests'', ''urllib3'', ''python-dotenv'', ''pydantic'', ''pandas'', ''numpy'',
      ''pyyaml'', ''schedule'', ''rich'', ''loguru'', ''click'', ''boto3'', ''paramiko'',
      ''beautifulsoup4'', ''lxml'', ''selenium'', ''openpyxl'', ''psutil'']"

definition WINDOWS_ONLY :: "string list" where
  "WINDOWS_ONLY = [''pywin32'']"

definition UNIX_ONLY :: "string list" where
  "UNIX_ONLY = []"

text \<open>
  The loop \<open>for pkg in extras: if pkg and pkg not in packages: packages.append(pkg)\<close>,
  with the list built so far as the accumulator.
\<close>

fun add_extras :: "string list \<Rightarrow> string list \<Rightarrow> string list" where
  "add_extras packages [] = packages"
| "add_extras packages (pkg # extras) =
     (if pkg \<noteq> [] \<and> pkg \<notin> set packages then add_extras (packages @ [pkg]) extras
      else add_extras packages extras)"

definition platform_packages :: "string \<Rightarrow> string list" where
  "platform_packages current_platform =
     (if current_platform = ''windows'' then BASE_LIBRARIES @ WINDOWS_ONLY
      else BASE_LIBRARIES @ UNIX_ONLY)"

definition gather_packages :: "string \<Rightarrow> string list \<Rightarrow> string list" where
  "gather_packages current_platform extras =
     add_extras (platform_packages current_platform) extras"

section \<open>Installer file names\<close>

definition unsupported_architecture :: "string \<Rightarrow> string \<Rightarrow> error" where
  "unsupported_architecture machine current_platform =
     RuntimeError (''Unsupported architecture '' @ [CHR 0x27] @ machine @ [CHR 0x27]
                   @ '' for platform '' @ [CHR 0x27] @ current_platform @ [CHR 0x27] @ ''.'')"

definition build_miniforge_filename :: "string \<Rightarrow> string \<Rightarrow> error + string" where
  "build_miniforge_filename current_platform machine =
     (let arch = str_lower machine in
      if current_platform = ''windows'' then
        if arch \<in> {''x86_64'', ''amd64''} then Inr ''Miniforge3-Windows-x86_64.exe''
        else if arch \<in> {''arm64'', ''aarch64''} then Inr ''Miniforge3-Windows-arm64.exe''
        else Inl (unsupported_architecture machine current_platform)
      else if current_platform = ''mac'' then
        if arch \<in> {''x86_64'', ''amd64''} then Inr ''Miniforge3-MacOSX-x86_64.sh''
        else if arch \<in> {''arm64'', ''aarch64''} then Inr ''Miniforge3-MacOSX-arm64.sh''
        else Inl (unsupported_architecture machine current_platform)
      else
        if arch \<in> {''x86_64'', ''amd64''} then Inr ''Miniforge3-Linux-x86_64.sh''
        else if arch \<in> {''arm64'', ''aarch64''} then Inr ''Miniforge3-Linux-aarch64.sh''
        else Inl (unsupported_architecture machine current_platform))"

section \<open>The host and the world\<close>

text \<open>
  Everything the program asks of its host is a field of \<open>host\<close>: the values of
  \<open>platform.system()\<close>, \<open>platform.machine()\<close>, \<open>sys.executable\<close> and
  \<open>os.name\<close>, and the library functions whose results the program only passes on:
  \<open>shutil.which\<close>; the \<open>/\<close> operator and \<open>parent\<close> of \<open>pathlib\<close>;
  \<open>expanduser().resolve()\<close>, which raises for a path it cannot resolve (a home
  directory that cannot be determined); the paths on which \<open>exists()\<close> raises instead
  of answering (a name that is too long, a directory that may not be searched); the
  directory \<open>tempfile.TemporaryDirectory\<close> creates, or the error when it cannot create
  one; whether \<open>urlopen\<close> succeeds; and what a child process does. A path is the
  string \<open>str(path)\<close>; \<open>path_under h d p\<close> says that \<open>p\<close> lies below the directory
  \<open>d\<close>.
\<close>

datatype proc_result =
    Completed int "string set"  \<comment> \<open>return code, and the files that exist afterwards\<close>
  | SpawnError string           \<comment> \<open>the process could not be started\<close>

record host =
  platform_system :: string
  platform_machine :: string
  sys_executable :: "string option"
  os_name :: string
  shutil_which :: "string \<Rightarrow> string option"
  path_join :: "string \<Rightarrow> string \<Rightarrow> string"
  path_parent :: "string \<Rightarrow> string"
  path_resolve :: "string \<Rightarrow> error + string"
  path_under :: "string \<Rightarrow> string \<Rightarrow> bool"
  exists_error :: "string \<Rightarrow> string option"
  mkdtemp :: "string \<Rightarrow> error + string"
  urlopen_ok :: "string \<Rightarrow> bool"
  subprocess_run :: "string list \<Rightarrow> string option \<Rightarrow> string set \<Rightarrow> proc_result"

text \<open>
  Every action on the outside world is logged, the read-only probes included, so that
  the order of actions and their absence can be stated.
\<close>

datatype event =
    Print string          \<comment> \<open>a line on standard output\<close>
  | Exists string         \<comment> \<open>\<open>Path.exists()\<close>\<close>
  | Which string          \<comment> \<open>\<open>shutil.which\<close>\<close>
  | MkTemp string         \<comment> \<open>the temporary directory is created\<close>
  | RmTemp string         \<comment> \<open>the temporary directory is removed\<close>
  | Mkdir string          \<comment> \<open>\<open>Path.mkdir(parents=True, exist_ok=True)\<close>\<close>
  | UrlOpen string        \<comment> \<open>the HTTPS request\<close>
  | WriteFile string      \<comment> \<open>the downloaded file is written\<close>
  | Chmod string
  | Spawn "string list"   \<comment> \<open>\<open>subprocess.run\<close>\<close>

record world =
  files :: "string set"
  trace :: "event list"

definition emit :: "event \<Rightarrow> world \<Rightarrow> world" where
  "emit e w = w\<lparr>trace := trace w @ [e]\<rparr>"

text \<open>Truthiness of an optional string: \<open>None\<close> and the empty string are false.\<close>

definition truthy :: "string option \<Rightarrow> bool" where
  "truthy c = (case c of None \<Rightarrow> False | Some s \<Rightarrow> s \<noteq> [])"

text \<open>
  \<open>path.exists()\<close>: the test is logged; it raises \<open>OSError\<close> on a path the host
  cannot examine, and otherwise tells whether the path is among the files.
\<close>

definition path_exists :: "host \<Rightarrow> string \<Rightarrow> world \<Rightarrow> (error + bool) \<times> world" where
  "path_exists h p w =
     (case exists_error h p of
        Some msg \<Rightarrow> (Inl (OSError msg), emit (Exists p) w)
      | None \<Rightarrow> (Inr (p \<in> files w), emit (Exists p) w))"

section \<open>Running commands\<close>

definition command_failed :: "int \<Rightarrow> string \<Rightarrow> error" where
  "command_failed returncode cmd_str =
     RuntimeError (''Command failed ('' @ str_int returncode @ ''): '' @ cmd_str)"

definition run_command ::
  "host \<Rightarrow> string list \<Rightarrow> string option \<Rightarrow> bool \<Rightarrow> world \<Rightarrow> (error + unit) \<times> world" where
  "run_command h command cwd dry_run w =
     (let cmd_str = str_join '' '' command;
          w1 = emit (Print ([CHR 0x0A] @ ''$ '' @ cmd_str)) w
      in if dry_run then (Inr (), w1)
         else
           (case subprocess_run h command cwd (files w1) of
              SpawnError msg \<Rightarrow> (Inl (OSError msg), emit (Spawn command) w1)
            | Completed returncode fs \<Rightarrow>
                (let w2 = (emit (Spawn command) w1)\<lparr>files := fs\<rparr>
                 in if returncode \<noteq> 0 then (Inl (command_failed returncode cmd_str), w2)
                    else (Inr (), w2))))"

section \<open>Platform detection\<close>

definition determine_platform :: "host \<Rightarrow> string" where
  "determine_platform h =
     (let system_name = str_lower (platform_system h)
      in if str_in ''windows'' system_name then ''windows''
         else if str_in ''darwin'' system_name then ''mac''
         else ''linux'')"

section \<open>Finding an interpreter\<close>

text \<open>The loop of \<open>detect_existing_python\<close> over its candidates.\<close>

fun probe_candidates ::
  "host \<Rightarrow> string option list \<Rightarrow> world \<Rightarrow> (error + string option) \<times> world" where
  "probe_candidates h [] w = (Inr None, w)"
| "probe_candidates h (candidate # rest) w =
     (if \<not> truthy candidate then probe_candidates h rest w
      else
        (let c = the candidate
         in case path_exists h c w of
              (Inl e, w1) \<Rightarrow> (Inl e, w1)
            | (Inr found, w1) \<Rightarrow>
                if found then (Inr (Some c), w1)
                else
                  (let w2 = emit (Which c) w1
                   in if truthy (shutil_which h c) then (Inr (shutil_which h c), w2)
                      else probe_candidates h rest w2)))"

definition detect_existing_python ::
  "host \<Rightarrow> string option \<Rightarrow> world \<Rightarrow> (error + string option) \<times> world" where
  "detect_existing_python h explicit w =
     probe_candidates h
       [explicit, sys_executable h, Some ''python3'', Some ''python'', Some ''py''] w"

section \<open>Installing the portable runtime\<close>

definition MINIFORGE_BASE_URL :: string where
  "MINIFORGE_BASE_URL = ''https://github.com/conda-forge/miniforge/releases/latest/download''"

definition download_file ::
  "host \<Rightarrow> string \<Rightarrow> string \<Rightarrow> bool \<Rightarrow> world \<Rightarrow> (error + unit) \<times> world" where
  "download_file h url destination dry_run w =
     (let w1 = emit (Print (''Downloading '' @ url @ '' -> '' @ destination)) w
      in if dry_run then (Inr (), w1)
         else
           (let parent = path_parent h destination;
                w2 = (emit (Mkdir parent) w1)\<lparr>files := insert parent (files w1)\<rparr>;
                w3 = emit (UrlOpen url) w2
            in if \<not> urlopen_ok h url then (Inl (URLError url), w3)
               else (Inr (), (emit (WriteFile destination) w3)
                               \<lparr>files := insert destination (files w3)\<rparr>)))"

text \<open>The body of the \<open>with tempfile.TemporaryDirectory(...)\<close> block.\<close>

definition install_in_tmpdir ::
  "host \<Rightarrow> string \<Rightarrow> string \<Rightarrow> bool \<Rightarrow> string \<Rightarrow> string \<Rightarrow> string \<Rightarrow> world
     \<Rightarrow> (error + unit) \<times> world" where
  "install_in_tmpdir h runtime_dir current_platform dry_run tmpdir filename url w =
     (let installer_path = path_join h tmpdir filename
      in case download_file h url installer_path dry_run w of
           (Inl e, w1) \<Rightarrow> (Inl e, w1)
         | (Inr _, w1) \<Rightarrow>
             if dry_run then (Inr (), w1)
             else if current_platform = ''windows'' then
               run_command h
                 [installer_path, ''/InstallationType=JustMe'', ''/AddToPath=0'', ''/S'',
                  ''/D='' @ runtime_dir] None False w1
             else
               run_command h [''bash'', installer_path, ''-b'', ''-p'', runtime_dir] None False
                 (emit (Chmod installer_path) w1))"

text \<open>Leaving the \<open>with\<close> block removes the temporary directory and all below it.\<close>

definition cleanup_tmpdir :: "host \<Rightarrow> string \<Rightarrow> world \<Rightarrow> world" where
  "cleanup_tmpdir h tmpdir w =
     (emit (RmTemp tmpdir) w)
       \<lparr>files := {p \<in> files w. p \<noteq> tmpdir \<and> \<not> path_under h tmpdir p}\<rparr>"

definition install_miniforge ::
  "host \<Rightarrow> string \<Rightarrow> string \<Rightarrow> bool \<Rightarrow> world \<Rightarrow> (error + unit) \<times> world" where
  "install_miniforge h runtime_dir current_platform dry_run w =
     (case build_miniforge_filename current_platform (platform_machine h) of
        Inl e \<Rightarrow> (Inl e, w)
      | Inr filename \<Rightarrow>
          (let url = MINIFORGE_BASE_URL @ ''/'' @ filename
           in case mkdtemp h ''python-bootstrap-'' of
                Inl e \<Rightarrow> (Inl e, w)
              | Inr tmpdir \<Rightarrow>
                  (let w1 = (emit (MkTemp tmpdir) w)\<lparr>files := insert tmpdir (files w)\<rparr>
                   in case install_in_tmpdir h runtime_dir current_platform dry_run tmpdir
                             filename url w1 of
                        (r, w2) \<Rightarrow> (r, cleanup_tmpdir h tmpdir w2))))"

definition ensure_python_runtime ::
  "host \<Rightarrow> string option \<Rightarrow> string \<Rightarrow> string \<Rightarrow> bool \<Rightarrow> world \<Rightarrow> (error + string) \<times> world" where
  "ensure_python_runtime h explicit_python runtime_dir current_platform dry_run w =
     (if truthy explicit_python then
        (case path_resolve h (the explicit_python) of
           Inl e \<Rightarrow> (Inl e, w)
         | Inr path \<Rightarrow>
             if dry_run then
               (Inr path, emit (Print (''Using user-specified python interpreter: '' @ path)) w)
             else
               (case path_exists h path w of
                  (Inl e, w1) \<Rightarrow> (Inl e, w1)
                | (Inr found, w1) \<Rightarrow>
                    if found then
                      (Inr path,
                       emit (Print (''Using user-specified python interpreter: '' @ path)) w1)
                    else
                      (Inl (FileNotFoundError
                              (''Specified python interpreter not found: '' @ path)), w1)))
      else
        (case detect_existing_python h None w of
           (Inl e, w1) \<Rightarrow> (Inl e, w1)
         | (Inr (Some existing), w1) \<Rightarrow>
             (Inr existing, emit (Print (''Detected existing python interpreter: '' @ existing)) w1)
         | (Inr None, w1) \<Rightarrow>
             (let runtime_python =
                    path_join h runtime_dir
                      (if current_platform = ''windows'' then ''python.exe'' else ''bin/python'')
              in case path_exists h runtime_python w1 of
                   (Inl e, w2) \<Rightarrow> (Inl e, w2)
                 | (Inr found, w2) \<Rightarrow>
                     if found then
                       (Inr runtime_python,
                        emit (Print (''Reusing portable runtime at '' @ runtime_python)) w2)
                     else
                       (case install_miniforge h runtime_dir current_platform dry_run
                               (emit (Print (''No python detected. Installing portable runtime into ''
                                             @ runtime_dir @ ''...'')) w2) of
                          (Inl e, w3) \<Rightarrow> (Inl e, w3)
                        | (Inr _, w3) \<Rightarrow> (Inr runtime_python, w3)))))"

section \<open>The virtual environment and its packages\<close>




section \<open>The whole run\<close>



section \<open>Notions used to state the properties\<close>

text \<open>First-seen order: every element once, at the place of its first occurrence.\<close>

fun first_seen :: "'a list \<Rightarrow> 'a list" where
  "first_seen [] = []"
| "first_seen (x # xs) = x # first_seen (filter (\<lambda>y. y \<noteq> x) xs)"

text \<open>
  Two characters are the same letter up to case when they are equal or when one is a
  capital of the Latin alphabet and the other the small letter at the same place.
\<close>

definition capital_letters :: string where
  "capital_letters = ''ABCDEFGHIJKLMNOPQRSTUVWXYZ''"

definition small_letters :: string where
  "small_letters = ''abcdefghijklmnopqrstuvwxyz''"

definition same_letter :: "char \<Rightarrow> char \<Rightarrow> bool" where
  "same_letter a b \<longleftrightarrow>
     a = b \<or> (a, b) \<in> set (zip capital_letters small_letters)
           \<or> (b, a) \<in> set (zip capital_letters small_letters)"

text \<open>
  \<open>s\<close> contains \<open>needle\<close> case-insensitively: some substring of \<open>s\<close> equals
  \<open>needle\<close> letter by letter, up to case.
\<close>

definition contains_ci :: "string \<Rightarrow> string \<Rightarrow> bool" where
  "contains_ci needle s \<longleftrightarrow> (\<exists>ps t ss. s = ps @ t @ ss \<and> list_all2 same_letter t needle)"




text \<open>
  The interpreter search as the specification words it: the running interpreter, then
  the generic names resolved against the search path, first match wins.
\<close>

definition search_path_probe :: "host \<Rightarrow> string set \<Rightarrow> string option" where
  "search_path_probe h fs =
     (if truthy (sys_executable h) \<and> the (sys_executable h) \<in> fs then sys_executable h
      else if truthy (shutil_which h ''python3'') then shutil_which h ''python3''
      else if truthy (shutil_which h ''python'') then shutil_which h ''python''
      else if truthy (shutil_which h ''py'') then shutil_which h ''py''
      else None)"





section \<open>Example hosts\<close>

text \<open>
  A Linux host on x86-64 with no interpreter at all: \<open>sys.executable\<close> is unset and
  the search path resolves nothing. Every path resolves to itself, every existence test
  answers, and every download and every child process succeeds.
\<close>

definition bare_host :: host where
  "bare_host = \<lparr> platform_system = ''Linux'', platform_machine = ''x86_64'',
            sys_executable = None, os_name = ''posix'',
            shutil_which = (\<lambda>n. None),
            path_join = (\<lambda>a b. a @ ''/'' @ b),
            path_parent = (\<lambda>p. p), path_resolve = (\<lambda>p. Inr p),
            path_under = (\<lambda>d p. False), exists_error = (\<lambda>p. None),
            mkdtemp = (\<lambda>pre. Inr (''/tmp/'' @ pre @ ''0'')),
            urlopen_ok = (\<lambda>u. True),
            subprocess_run = (\<lambda>cmd cwd fs. Completed 0 fs) \<rparr>"

text \<open>The same host with \<open>python3\<close> on the search path.\<close>

definition python3_host :: host where
  "python3_host =
     bare_host\<lparr>shutil_which := (\<lambda>n. if n = ''python3'' then Some ''/usr/bin/python3'' else None)\<rparr>"

text \<open>The same host on an architecture without an installer.\<close>

definition ppc_host :: host where
  "ppc_host = bare_host\<lparr>platform_machine := ''ppc64le''\<rparr>"







text \<open>Hosts that report the system names of Windows and of macOS.\<close>

definition windows_host :: host where
  "windows_host = bare_host\<lparr>platform_system := ''Windows'', os_name := ''nt''\<rparr>"

definition darwin_host :: host where
  "darwin_host = bare_host\<lparr>platform_system := ''Darwin''\<rparr>"



section \<open>Properties\<close>

lemma add_extras_no_empty: "[] \<notin> set packages \<Longrightarrow> [] \<notin> set (add_extras packages extras)"
  by (induction extras arbitrary: packages) auto

lemma platform_packages_no_empty: "[] \<notin> set (platform_packages p)"
  by (simp add: platform_packages_def BASE_LIBRARIES_def WINDOWS_ONLY_def UNIX_ONLY_def)

text \<open>
  Claim C10. For every platform tag and every sequence of extras, the empty string is not
  in the list that \<open>gather_packages\<close> returns, even when it is one of the extras.
\<close>

theorem gather_packages_no_empty: "[] \<notin> set (gather_packages current_platform extras)"
  unfolding gather_packages_def by (rule add_extras_no_empty) (rule platform_packages_no_empty)

lemma first_seen_set: "set (first_seen xs) = set xs"
  by (induction xs rule: first_seen.induct) auto

lemma first_seen_distinct: "distinct (first_seen xs)"
  by (induction xs rule: first_seen.induct) (auto simp: first_seen_set)

lemma add_extras_first_seen:
  "add_extras packages extras =
     packages @ first_seen [e \<leftarrow> extras. e \<noteq> [] \<and> e \<notin> set packages]"
proof (induction extras arbitrary: packages)
  case Nil
  then show ?case by simp
next
  case (Cons pkg extras)
  have eq': "filter (\<lambda>e. e \<noteq> [] \<and> e \<noteq> pkg \<and> e \<notin> set packages) extras
             = filter (\<lambda>y. y \<noteq> pkg) [e \<leftarrow> extras. e \<noteq> [] \<and> e \<notin> set packages]"
    by (induction extras) auto
  show ?case using Cons.IH [of "packages @ [pkg]"] Cons.IH [of packages]
    by (simp add: eq')
qed

lemma platform_packages_distinct: "distinct (platform_packages p)"
  by (simp add: platform_packages_def BASE_LIBRARIES_def WINDOWS_ONLY_def UNIX_ONLY_def)

lemma platform_packages_eq:
  "platform_packages p = BASE_LIBRARIES @ (if p = ''windows'' then [''pywin32''] else [])"
  by (simp add: platform_packages_def WINDOWS_ONLY_def UNIX_ONLY_def)

lemma gather_packages_distinct: "distinct (gather_packages p extras)"
  unfolding gather_packages_def add_extras_first_seen
  by (auto simp: platform_packages_distinct first_seen_distinct first_seen_set)

lemma gather_packages_set:
  "set (gather_packages p extras) = set (platform_packages p) \<union> (set extras - {[]})"
  unfolding gather_packages_def add_extras_first_seen
  by (auto simp: first_seen_set)

lemma count_list_distinct: "distinct xs \<Longrightarrow> count_list xs x = (if x \<in> set xs then 1 else 0)"
  by (induction xs) auto

lemma pywin32_not_base: "''pywin32'' \<notin> set BASE_LIBRARIES"
  by (simp add: BASE_LIBRARIES_def)

text \<open>
  Claim C1, as amended. For every platform tag and every list of extras,
  \<open>gather_packages\<close> returns the base list, then \<open>pywin32\<close> exactly when the platform
  is \<open>windows\<close>, then the extras that are non-empty and not in that list already, each
  once, in first-seen order. Hence every base library occurs exactly once; \<open>pywin32\<close>
  occurs exactly once when the platform is \<open>windows\<close> or \<open>pywin32\<close> is among the
  extras, and not at all otherwise; every non-empty extra occurs exactly once; and the list
  holds nothing else.
\<close>

theorem gather_packages_contents:
  "gather_packages p extras =
     BASE_LIBRARIES @ (if p = ''windows'' then [''pywin32''] else [])
       @ first_seen [e \<leftarrow> extras. e \<noteq> [] \<and> e \<notin> set (platform_packages p)]
   \<and> (\<forall>b \<in> set BASE_LIBRARIES. count_list (gather_packages p extras) b = 1)
   \<and> count_list (gather_packages p extras) ''pywin32''
       = (if p = ''windows'' \<or> ''pywin32'' \<in> set extras then 1 else 0)
   \<and> (\<forall>e \<in> set extras. e \<noteq> [] \<longrightarrow> count_list (gather_packages p extras) e = 1)
   \<and> (\<forall>x \<in> set (gather_packages p extras).
         x \<in> set BASE_LIBRARIES \<or> (p = ''windows'' \<and> x = ''pywin32'') \<or> x \<in> set extras)"
proof -
  have 1: "gather_packages p extras =
     BASE_LIBRARIES @ (if p = ''windows'' then [''pywin32''] else [])
       @ first_seen [e \<leftarrow> extras. e \<noteq> [] \<and> e \<notin> set (platform_packages p)]"
    unfolding gather_packages_def add_extras_first_seen [of "platform_packages p"]
    by (simp add: platform_packages_eq)
  have cnt: "count_list (gather_packages p extras) x
             = (if x \<in> set (platform_packages p) \<union> (set extras - {[]}) then 1 else 0)" for x
  proof -
    have "distinct (gather_packages p extras)" by (rule gather_packages_distinct)
    from count_list_distinct [OF this] show ?thesis by (simp only: gather_packages_set)
  qed
  have 2: "\<forall>b \<in> set BASE_LIBRARIES. count_list (gather_packages p extras) b = 1"
    by (simp add: cnt platform_packages_eq)
  have 3: "count_list (gather_packages p extras) ''pywin32''
       = (if p = ''windows'' \<or> ''pywin32'' \<in> set extras then 1 else 0)"
    by (simp add: cnt platform_packages_eq pywin32_not_base)
  have 4: "\<forall>e \<in> set extras. e \<noteq> [] \<longrightarrow> count_list (gather_packages p extras) e = 1"
    by (simp add: cnt)
  have 5: "\<forall>x \<in> set (gather_packages p extras).
         x \<in> set BASE_LIBRARIES \<or> (p = ''windows'' \<and> x = ''pywin32'') \<or> x \<in> set extras"
    by (auto simp: gather_packages_set platform_packages_eq split: if_splits)
  from 1 2 3 4 5 show ?thesis by blast
qed

text \<open>On \<open>windows\<close>, with a repeated extra, an empty extra and an extra of the base list.\<close>

theorem gather_packages_contents_witness:
  "gather_packages ''windows'' [''foo'', '''', ''requests'', ''foo'', ''bar'']
     = BASE_LIBRARIES @ [''pywin32'', ''foo'', ''bar'']
   \<and> count_list (gather_packages ''windows'' [''foo'', '''', ''requests'', ''foo'', ''bar'']) ''requests'' = 1
   \<and> count_list (gather_packages ''windows'' [''foo'', '''', ''requests'', ''foo'', ''bar'']) ''foo'' = 1
   \<and> count_list (gather_packages ''windows'' [''foo'', '''', ''requests'', ''foo'', ''bar'']) ''pywin32'' = 1"
  using gather_packages_contents [of "''windows''" "[''foo'', '''', ''requests'', ''foo'', ''bar'']"]
  by (simp add: BASE_LIBRARIES_def platform_packages_eq)

text \<open>
  The claim as first stated fails on \<open>linux\<close> with the extras \<open>['', 'pywin32']\<close>:
  \<open>pywin32\<close> is in the list although the platform is not \<open>windows\<close>, and the extra
  \<open>''\<close> is not in the list.
\<close>

theorem gather_packages_counterexample:
  "''linux'' \<noteq> ''windows''
   \<and> count_list (gather_packages ''linux'' ['''', ''pywin32'']) ''pywin32'' = 1
   \<and> '''' \<in> set ['''', ''pywin32'']
   \<and> count_list (gather_packages ''linux'' ['''', ''pywin32'']) '''' = 0"
  by (simp add: gather_packages_def platform_packages_def BASE_LIBRARIES_def UNIX_ONLY_def)

lemma startswith_iff: "startswith hay needle \<longleftrightarrow> (\<exists>ss. hay = needle @ ss)"
  by (induction hay needle rule: startswith.induct) auto

lemma str_in_iff: "str_in needle hay \<longleftrightarrow> (\<exists>ps ss. hay = ps @ needle @ ss)"
proof (induction hay)
  case Nil
  then show ?case by auto
next
  case (Cons h hs)
  show ?case
  proof
    assume "str_in needle (h # hs)"
    then consider "startswith (h # hs) needle" | "str_in needle hs" by auto
    then show "\<exists>ps ss. h # hs = ps @ needle @ ss"
    proof cases
      case 1
      then obtain ss where "h # hs = needle @ ss" by (auto simp: startswith_iff)
      then have "h # hs = [] @ needle @ ss" by simp
      then show ?thesis by blast
    next
      case 2
      then obtain ps ss where "hs = ps @ needle @ ss" using Cons.IH by auto
      then have "h # hs = (h # ps) @ needle @ ss" by simp
      then show ?thesis by blast
    qed
  next
    assume "\<exists>ps ss. h # hs = ps @ needle @ ss"
    then obtain ps ss where eq: "h # hs = ps @ needle @ ss" by blast
    show "str_in needle (h # hs)"
    proof (cases ps)
      case Nil
      with eq have "startswith (h # hs) needle" by (auto simp: startswith_iff)
      then show ?thesis by simp
    next
      case (Cons p ps')
      with eq have "hs = ps' @ needle @ ss" by simp
      then have "str_in needle hs" using Cons.IH by blast
      then show ?thesis by simp
    qed
  qed
qed

text \<open>The letter table and the arithmetic of \<open>lower_char\<close> agree.\<close>

lemma capital_letters_codes: "map (char_of :: nat \<Rightarrow> char) [65..<91] = capital_letters"
  unfolding capital_letters_def by code_simp

lemma in_capital_letters:
  assumes "65 \<le> (of_char c :: nat)" and "(of_char c :: nat) \<le> 90"
  shows "c \<in> set capital_letters"
proof -
  have "(of_char c :: nat) \<in> {65..<91}" using assms by (simp only: atLeastLessThan_iff) arith
  then have "(of_char c :: nat) \<in> set [65..<91]" by (simp only: set_upt)
  then have "char_of (of_char c :: nat) \<in> set (map (char_of :: nat \<Rightarrow> char) [65..<91])"
    by (simp only: set_map) (rule imageI)
  then show ?thesis by (simp only: capital_letters_codes char_of_char)
qed

lemma lower_capital_letters: "map lower_char capital_letters = small_letters"
  by (simp add: capital_letters_def small_letters_def lower_char_def char_of_def bit_0)

lemma zip_map_self: "u \<in> set xs \<Longrightarrow> (u, f u) \<in> set (zip xs (map f xs))"
  by (induction xs) auto

lemma capital_lower_zip:
  "u \<in> set capital_letters \<Longrightarrow> (u, lower_char u) \<in> set (zip capital_letters small_letters)"
  using zip_map_self [of u capital_letters lower_char] by (simp only: lower_capital_letters)

lemma zip_lower_char:
  "(u, l) \<in> set (zip capital_letters small_letters) \<Longrightarrow> lower_char u = l"
  by (auto simp: capital_letters_def small_letters_def lower_char_def char_of_def bit_0)

lemma small_lower_char: "l \<in> set small_letters \<Longrightarrow> lower_char l = l"
  by (auto simp: small_letters_def lower_char_def)

lemma small_not_capital: "l \<in> set small_letters \<Longrightarrow> l \<notin> set capital_letters"
  by (auto simp: small_letters_def capital_letters_def)

lemma same_letter_small:
  assumes l: "l \<in> set small_letters"
  shows "same_letter c l \<longleftrightarrow> lower_char c = l"
proof
  assume "same_letter c l"
  then consider "c = l" | "(c, l) \<in> set (zip capital_letters small_letters)"
    | "(l, c) \<in> set (zip capital_letters small_letters)"
    unfolding same_letter_def by blast
  then show "lower_char c = l"
  proof cases
    case 1
    then show ?thesis using small_lower_char [OF l] by simp
  next
    case 2
    then show ?thesis by (rule zip_lower_char)
  next
    case 3
    then have "l \<in> set capital_letters" by (rule set_zip_leftD)
    then show ?thesis using small_not_capital [OF l] by simp
  qed
next
  assume low: "lower_char c = l"
  show "same_letter c l"
  proof (cases "65 \<le> (of_char c :: nat) \<and> (of_char c :: nat) \<le> 90")
    case True
    then have "c \<in> set capital_letters" by (simp add: in_capital_letters)
    then have "(c, lower_char c) \<in> set (zip capital_letters small_letters)"
      by (rule capital_lower_zip)
    then show ?thesis unfolding same_letter_def low by simp
  next
    case False
    then have "lower_char c = c" by (auto simp: lower_char_def Let_def)
    then show ?thesis unfolding same_letter_def using low by simp
  qed
qed

lemma list_all2_same_letter:
  "set needle \<subseteq> set small_letters \<Longrightarrow>
   list_all2 same_letter t needle \<longleftrightarrow> str_lower t = needle"
proof (induction needle arbitrary: t)
  case Nil
  show ?case by (simp add: str_lower_def)
next
  case (Cons l ls)
  from Cons.prems have l: "l \<in> set small_letters" and ls: "set ls \<subseteq> set small_letters"
    by simp_all
  note IH = Cons.IH [OF ls]
  show ?case
  proof (cases t)
    case Nil
    then show ?thesis by (simp add: str_lower_def)
  next
    case t: (Cons c cs)
    have "list_all2 same_letter (c # cs) (l # ls)
            \<longleftrightarrow> same_letter c l \<and> list_all2 same_letter cs ls"
      by (rule list_all2_Cons)
    also have "\<dots> \<longleftrightarrow> lower_char c = l \<and> str_lower cs = ls"
      by (simp only: IH same_letter_small [OF l])
    also have "\<dots> \<longleftrightarrow> str_lower (c # cs) = l # ls"
      by (simp only: str_lower_def list.map list.inject)
    finally show ?thesis by (simp only: t)
  qed
qed

lemma str_in_lower_iff:
  assumes "set needle \<subseteq> set small_letters"
  shows "str_in needle (str_lower s) \<longleftrightarrow> contains_ci needle s"
proof -
  have "(\<exists>ps ss. map lower_char s = ps @ needle @ ss)
        \<longleftrightarrow> (\<exists>ps t ss. s = ps @ t @ ss \<and> map lower_char t = needle)"
  proof
    assume "\<exists>ps ss. map lower_char s = ps @ needle @ ss"
    then obtain ps ss where "map lower_char s = ps @ needle @ ss" by blast
    then obtain us vs where s: "s = us @ vs" and "needle @ ss = map lower_char vs"
      by (auto simp: map_eq_append_conv)
    then obtain t r where "vs = t @ r" and "needle = map lower_char t"
      by (auto simp: append_eq_map_conv)
    with s have "s = us @ t @ r \<and> map lower_char t = needle" by simp
    then show "\<exists>ps t ss. s = ps @ t @ ss \<and> map lower_char t = needle" by blast
  next
    assume "\<exists>ps t ss. s = ps @ t @ ss \<and> map lower_char t = needle"
    then obtain ps t ss where "s = ps @ t @ ss" and "map lower_char t = needle" by blast
    then have "map lower_char s = map lower_char ps @ needle @ map lower_char ss" by simp
    then show "\<exists>ps ss. map lower_char s = ps @ needle @ ss" by blast
  qed
  then show ?thesis
    by (simp add: str_in_iff contains_ci_def list_all2_same_letter [OF assms] str_lower_def)
qed

lemma windows_small: "set ''windows'' \<subseteq> set small_letters"
  by (simp add: small_letters_def)

lemma darwin_small: "set ''darwin'' \<subseteq> set small_letters"
  by (simp add: small_letters_def)

text \<open>
  Claim C3. For every OS-identifier string, \<open>determine_platform\<close> returns \<open>windows\<close>
  if the string contains \<open>windows\<close> case-insensitively, else \<open>mac\<close> if it contains
  \<open>darwin\<close> case-insensitively, else \<open>linux\<close>; it has no error path and its result
  is always one of the three tags. Case-insensitive containment is \<open>contains_ci\<close>, which
  compares letters through the table of capital and small letters and does not refer to
  \<open>str_lower\<close>.
\<close>

theorem determine_platform_policy:
  "determine_platform h =
     (if contains_ci ''windows'' (platform_system h) then ''windows''
      else if contains_ci ''darwin'' (platform_system h) then ''mac''
      else ''linux'')
   \<and> determine_platform h \<in> {''windows'', ''mac'', ''linux''}"
  by (simp add: determine_platform_def str_in_lower_iff [OF windows_small]
        str_in_lower_iff [OF darwin_small])

text \<open>
  The names the three systems report, two of them with a capital letter: \<open>Windows\<close>,
  \<open>Darwin\<close> and \<open>Linux\<close>.
\<close>

theorem determine_platform_policy_witness:
  "contains_ci ''windows'' ''Windows''
   \<and> determine_platform windows_host = ''windows''
   \<and> contains_ci ''darwin'' ''Darwin''
   \<and> determine_platform darwin_host = ''mac''
   \<and> determine_platform bare_host = ''linux''
   \<and> \<not> contains_ci ''windows'' ''Linux''
   \<and> \<not> contains_ci ''darwin'' ''Linux''"
proof -
  have pw: "platform_system windows_host = ''Windows''"
    by (simp add: windows_host_def bare_host_def)
  have pd: "platform_system darwin_host = ''Darwin''"
    by (simp add: darwin_host_def bare_host_def)
  have pl: "platform_system bare_host = ''Linux''"
    by (simp add: bare_host_def)
  have w: "contains_ci ''windows'' ''Windows''"
  proof -
    have "list_all2 same_letter ''Windows'' ''windows''"
      by (subst list_all2_same_letter [OF windows_small])
         (simp add: str_lower_def lower_char_def char_of_def bit_0)
    moreover have "''Windows'' = [] @ ''Windows'' @ []" by simp
    ultimately have "''Windows'' = [] @ ''Windows'' @ []
                     \<and> list_all2 same_letter ''Windows'' ''windows''" by (rule conjI [rotated])
    then show ?thesis
      unfolding contains_ci_def
      by (intro exI [of _ "[]"] exI [of _ "''Windows''"] exI [of _ "[]"])
  qed
  have d: "contains_ci ''darwin'' ''Darwin''"
  proof -
    have "list_all2 same_letter ''Darwin'' ''darwin''"
      by (subst list_all2_same_letter [OF darwin_small])
         (simp add: str_lower_def lower_char_def char_of_def bit_0)
    moreover have "''Darwin'' = [] @ ''Darwin'' @ []" by simp
    ultimately have "''Darwin'' = [] @ ''Darwin'' @ []
                     \<and> list_all2 same_letter ''Darwin'' ''darwin''" by (rule conjI [rotated])
    then show ?thesis
      unfolding contains_ci_def
      by (intro exI [of _ "[]"] exI [of _ "''Darwin''"] exI [of _ "[]"])
  qed
  have nd: "\<not> contains_ci ''windows'' ''Darwin''"
  proof
    assume "contains_ci ''windows'' ''Darwin''"
    then have "str_in ''windows'' (str_lower ''Darwin'')"
      by (simp only: str_in_lower_iff [OF windows_small])
    then show False by (simp add: str_lower_def lower_char_def char_of_def bit_0)
  qed
  have nw: "\<not> contains_ci ''windows'' ''Linux''"
  proof
    assume "contains_ci ''windows'' ''Linux''"
    then have "str_in ''windows'' (str_lower ''Linux'')"
      by (simp only: str_in_lower_iff [OF windows_small])
    then show False by (simp add: str_lower_def lower_char_def char_of_def bit_0)
  qed
  have nl: "\<not> contains_ci ''darwin'' ''Linux''"
  proof
    assume "contains_ci ''darwin'' ''Linux''"
    then have "str_in ''darwin'' (str_lower ''Linux'')"
      by (simp only: str_in_lower_iff [OF darwin_small])
    then show False by (simp add: str_lower_def lower_char_def char_of_def bit_0)
  qed
  have 1: "determine_platform windows_host = ''windows''"
    using determine_platform_policy [of windows_host] w by (simp only: pw if_True)
  have 2: "determine_platform darwin_host = ''mac''"
    using determine_platform_policy [of darwin_host] d nd by (simp only: pd if_True if_False)
  have 3: "determine_platform bare_host = ''linux''"
    using determine_platform_policy [of bare_host] nw nl by (simp only: pl if_False)
  from w 1 d 2 3 nw nl show ?thesis by (intro conjI)
qed

text \<open>
  Claim C2. For each of the platforms \<open>windows\<close>, \<open>mac\<close>, \<open>linux\<close> and every
  architecture string whose lowercase form is \<open>x86_64\<close> or \<open>amd64\<close>, respectively
  \<open>arm64\<close> or \<open>aarch64\<close>, \<open>build_miniforge_filename\<close> returns the literal file
  name of that combination. For every other architecture string, on any platform, it fails
  with the unsupported-architecture error, and \<open>install_miniforge\<close> then fails with that
  error in an unchanged world: nothing has been logged, so no download was attempted.
\<close>

theorem build_miniforge_filename_table:
  "(str_lower machine \<in> {''x86_64'', ''amd64''} \<longrightarrow>
      build_miniforge_filename ''windows'' machine = Inr ''Miniforge3-Windows-x86_64.exe''
    \<and> build_miniforge_filename ''mac'' machine = Inr ''Miniforge3-MacOSX-x86_64.sh''
    \<and> build_miniforge_filename ''linux'' machine = Inr ''Miniforge3-Linux-x86_64.sh'')
   \<and> (str_lower machine \<in> {''arm64'', ''aarch64''} \<longrightarrow>
      build_miniforge_filename ''windows'' machine = Inr ''Miniforge3-Windows-arm64.exe''
    \<and> build_miniforge_filename ''mac'' machine = Inr ''Miniforge3-MacOSX-arm64.sh''
    \<and> build_miniforge_filename ''linux'' machine = Inr ''Miniforge3-Linux-aarch64.sh'')
   \<and> (str_lower machine \<notin> {''x86_64'', ''amd64'', ''arm64'', ''aarch64''} \<longrightarrow>
      build_miniforge_filename current_platform machine
        = Inl (unsupported_architecture machine current_platform))
   \<and> (str_lower (platform_machine h) \<notin> {''x86_64'', ''amd64'', ''arm64'', ''aarch64''} \<longrightarrow>
      install_miniforge h runtime_dir current_platform dry_run w
        = (Inl (unsupported_architecture (platform_machine h) current_platform), w))"
proof -
  have a: "str_lower machine \<in> {''x86_64'', ''amd64''} \<longrightarrow>
      build_miniforge_filename ''windows'' machine = Inr ''Miniforge3-Windows-x86_64.exe''
    \<and> build_miniforge_filename ''mac'' machine = Inr ''Miniforge3-MacOSX-x86_64.sh''
    \<and> build_miniforge_filename ''linux'' machine = Inr ''Miniforge3-Linux-x86_64.sh''"
    by (simp add: build_miniforge_filename_def)
  have b: "str_lower machine \<in> {''arm64'', ''aarch64''} \<longrightarrow>
      build_miniforge_filename ''windows'' machine = Inr ''Miniforge3-Windows-arm64.exe''
    \<and> build_miniforge_filename ''mac'' machine = Inr ''Miniforge3-MacOSX-arm64.sh''
    \<and> build_miniforge_filename ''linux'' machine = Inr ''Miniforge3-Linux-aarch64.sh''"
    by (auto simp add: build_miniforge_filename_def)
  have c: "str_lower m \<notin> {''x86_64'', ''amd64'', ''arm64'', ''aarch64''} \<longrightarrow>
      build_miniforge_filename current_platform m
        = Inl (unsupported_architecture m current_platform)" for m
    by (simp add: build_miniforge_filename_def Let_def)
  have d: "str_lower (platform_machine h) \<notin> {''x86_64'', ''amd64'', ''arm64'', ''aarch64''} \<longrightarrow>
      install_miniforge h runtime_dir current_platform dry_run w
        = (Inl (unsupported_architecture (platform_machine h) current_platform), w)"
    using c [of "platform_machine h"] by (simp add: install_miniforge_def)
  from a b c [of machine] d show ?thesis by blast
qed

text \<open>Upper-case and lower-case spellings, and the unsupported \<open>i686\<close> and \<open>ppc64le\<close>.\<close>

theorem build_miniforge_filename_table_witness:
  "build_miniforge_filename ''windows'' ''AMD64'' = Inr ''Miniforge3-Windows-x86_64.exe''
   \<and> build_miniforge_filename ''mac'' ''x86_64'' = Inr ''Miniforge3-MacOSX-x86_64.sh''
   \<and> build_miniforge_filename ''linux'' ''aarch64'' = Inr ''Miniforge3-Linux-aarch64.sh''
   \<and> build_miniforge_filename ''mac'' ''ARM64'' = Inr ''Miniforge3-MacOSX-arm64.sh''
   \<and> build_miniforge_filename ''linux'' ''i686''
       = Inl (RuntimeError (''Unsupported architecture '' @ [CHR 0x27] @ ''i686'' @ [CHR 0x27]
                            @ '' for platform '' @ [CHR 0x27] @ ''linux'' @ [CHR 0x27] @ ''.''))
   \<and> install_miniforge ppc_host ''rt'' ''linux'' False \<lparr>files = {}, trace = []\<rparr>
       = (Inl (unsupported_architecture ''ppc64le'' ''linux''), \<lparr>files = {}, trace = []\<rparr>)"
  using build_miniforge_filename_table [of "''AMD64''" "''linux''" ppc_host "''rt''" False "\<lparr>files = {}, trace = []\<rparr>"]
        build_miniforge_filename_table [of "''x86_64''" "''linux''" ppc_host "''rt''" False "\<lparr>files = {}, trace = []\<rparr>"]
        build_miniforge_filename_table [of "''aarch64''" "''linux''" ppc_host "''rt''" False "\<lparr>files = {}, trace = []\<rparr>"]
        build_miniforge_filename_table [of "''ARM64''" "''linux''" ppc_host "''rt''" False "\<lparr>files = {}, trace = []\<rparr>"]
        build_miniforge_filename_table [of "''i686''" "''linux''" ppc_host "''rt''" False "\<lparr>files = {}, trace = []\<rparr>"]
  by (simp add: str_lower_def lower_char_def char_of_def bit_0 ppc_host_def bare_host_def
        unsupported_architecture_def)











text \<open>
  Claim C4 does not hold of the code. The claim has the generic names resolved against
  the search path; the code first takes a generic name as a path relative to the working
  directory. With an entry \<open>python3\<close> in the working directory the code returns the
  name \<open>python3\<close> although the search path resolves it to \<open>/usr/bin/python3\<close>; with
  an entry \<open>python\<close> and nothing on the search path the code returns \<open>python\<close>,
  and neither looks at the runtime directory nor installs anything.
\<close>

theorem detect_existing_python_cwd_entry:
  "search_path_probe python3_host (files \<lparr>files = {''python3''}, trace = []\<rparr>)
     = Some ''/usr/bin/python3''
   \<and> fst (ensure_python_runtime python3_host None ''rt'' ''linux'' False
            \<lparr>files = {''python3''}, trace = []\<rparr>) = Inr ''python3''
   \<and> search_path_probe bare_host (files \<lparr>files = {''python''}, trace = []\<rparr>) = None
   \<and> ensure_python_runtime bare_host None ''rt'' ''linux'' False \<lparr>files = {''python''}, trace = []\<rparr>
       = (Inr ''python'',
          \<lparr>files = {''python''},
           trace = [Exists ''python3'', Which ''python3'', Exists ''python'',
                    Print ''Detected existing python interpreter: python'']\<rparr>)"
  by (simp add: search_path_probe_def python3_host_def bare_host_def truthy_def
        ensure_python_runtime_def detect_existing_python_def path_exists_def Let_def emit_def)




























end
